theory Spec2Isabelle
  imports Main "HOL-Library.Word"
begin

unbundle bit_operations_syntax

section \<open>C integer types\<close>

type_synonym uint8_t = "8 word"
type_synonym uint16_t = "16 word"
type_synonym uint32_t = "32 word"

section \<open>The HAL the driver is written against\<close>

text \<open>
  Modelled from the spec: the STM32 HAL (\<^verbatim>\<open>main.h\<close>: \<^verbatim>\<open>HAL_StatusTypeDef\<close>,
  \<^verbatim>\<open>HAL_GPIO_WritePin\<close>, \<^verbatim>\<open>HAL_SPI_TransmitReceive\<close>, \<^verbatim>\<open>HAL_SPI_Transmit\<close>) is not
  part of the repository. The spec calls it the byte-exchange primitive
  (\<^verbatim>\<open>exchange(tx: 4 bytes) -> rx: 4 bytes | error\<close>) and the chip-select actuator.
  The driver only ever compares a status with \<^verbatim>\<open>HAL_OK\<close>.
\<close>

datatype HAL_StatusTypeDef = HAL_OK | HAL_ERROR | HAL_BUSY | HAL_TIMEOUT

datatype GPIO_PinState = GPIO_PIN_RESET | GPIO_PIN_SET

text \<open>
  The handle of \<^verbatim>\<open>max30003.h\<close>. The two peripheral pointers are kept as opaque
  identifiers.
\<close>

record MAX30003_HandleTypeDef =
  hspi :: nat
  cs_port :: nat
  cs_pin :: uint16_t

text \<open>
  What the peripherals see: every HAL call the driver makes, in the order it makes them,
  with the bytes handed to the SPI peripheral.
\<close>

datatype hal_call =
    WritePin nat uint16_t GPIO_PinState
  | TransmitReceive nat "uint8_t list"
  | Transmit nat "uint8_t list"

text \<open>
  The environment is a script of the answers the SPI peripheral will give to the coming
  transfers (a status, and the bytes shifted in before the transfer ended), together with
  the log of the calls made so far. A transfer that finds the script used up fails with
  \<^verbatim>\<open>HAL_ERROR\<close> and receives nothing.
\<close>

record bus =
  replies :: "(HAL_StatusTypeDef \<times> uint8_t list) list"
  calls :: "hal_call list"

definition next_reply :: "bus \<Rightarrow> HAL_StatusTypeDef \<times> uint8_t list" where
  "next_reply w = (case replies w of [] \<Rightarrow> (HAL_ERROR, []) | r # _ \<Rightarrow> r)"

text \<open>
  The received bytes are stored from the start of the receive buffer; the bytes of the
  buffer that were not reached keep what they held.
\<close>

definition received_into :: "uint8_t list \<Rightarrow> uint8_t list \<Rightarrow> uint8_t list" where
  "received_into rcv buf = take (length buf) (rcv @ drop (length rcv) buf)"

definition HAL_GPIO_WritePin :: "nat \<Rightarrow> uint16_t \<Rightarrow> GPIO_PinState \<Rightarrow> bus \<Rightarrow> bus" where
  "HAL_GPIO_WritePin port pin st w = w\<lparr>calls := calls w @ [WritePin port pin st]\<rparr>"

definition HAL_SPI_TransmitReceive ::
  "nat \<Rightarrow> uint8_t list \<Rightarrow> uint8_t list \<Rightarrow> uint16_t \<Rightarrow> uint32_t \<Rightarrow> bus
     \<Rightarrow> HAL_StatusTypeDef \<times> uint8_t list \<times> bus" where
  "HAL_SPI_TransmitReceive spi tx_data rx_data Size timeout w =
     (let (st, rcv) = next_reply w
      in (st,
          received_into (take (unat Size) rcv) rx_data,
          w\<lparr>replies := tl (replies w),
            calls := calls w @ [TransmitReceive spi (take (unat Size) tx_data)]\<rparr>))"

definition HAL_SPI_Transmit ::
  "nat \<Rightarrow> uint8_t list \<Rightarrow> uint16_t \<Rightarrow> uint32_t \<Rightarrow> bus \<Rightarrow> HAL_StatusTypeDef \<times> bus" where
  "HAL_SPI_Transmit spi tx_data Size timeout w =
     (fst (next_reply w),
      w\<lparr>replies := tl (replies w),
        calls := calls w @ [Transmit spi (take (unat Size) tx_data)]\<rparr>)"

section \<open>Constants of max30003.h\<close>

definition MAX30003_INT_EINT :: uint32_t where "MAX30003_INT_EINT = push_bit 23 1"
definition MAX30003_INT_EOVF :: uint32_t where "MAX30003_INT_EOVF = push_bit 22 1"

definition MAX30003_SPI_TIMEOUT :: uint32_t where "MAX30003_SPI_TIMEOUT = 100"
definition MAX30003_FIFO_LENGTH :: uint8_t where "MAX30003_FIFO_LENGTH = 32"

definition MAX30003_REG_STATUS :: uint8_t where "MAX30003_REG_STATUS = 0x01"
definition MAX30003_REG_EN_INT :: uint8_t where "MAX30003_REG_EN_INT = 0x02"
definition MAX30003_REG_EN_INT2 :: uint8_t where "MAX30003_REG_EN_INT2 = 0x03"
definition MAX30003_REG_MNGR_INT :: uint8_t where "MAX30003_REG_MNGR_INT = 0x04"
definition MAX30003_REG_MNGR_DYN :: uint8_t where "MAX30003_REG_MNGR_DYN = 0x05"
definition MAX30003_REG_FIFO_RST :: uint8_t where "MAX30003_REG_FIFO_RST = 0x0A"
definition MAX30003_REG_CNFG_GEN :: uint8_t where "MAX30003_REG_CNFG_GEN = 0x10"
definition MAX30003_REG_CNFG_CAL :: uint8_t where "MAX30003_REG_CNFG_CAL = 0x12"
definition MAX30003_REG_CNFG_EMUX :: uint8_t where "MAX30003_REG_CNFG_EMUX = 0x14"
definition MAX30003_REG_CNFG_ECG :: uint8_t where "MAX30003_REG_CNFG_ECG = 0x15"
definition MAX30003_REG_CNFG_RTOR1 :: uint8_t where "MAX30003_REG_CNFG_RTOR1 = 0x1D"
definition MAX30003_REG_CNFG_RTOR2 :: uint8_t where "MAX30003_REG_CNFG_RTOR2 = 0x1E"

definition MAX30003_FIFO_CMD_ECG_BURST :: uint8_t where "MAX30003_FIFO_CMD_ECG_BURST = 0x20"
definition MAX30003_FIFO_CMD_ECG :: uint8_t where "MAX30003_FIFO_CMD_ECG = 0x21"

definition MAX30003_ETAG_MASK :: uint32_t where "MAX30003_ETAG_MASK = 0x07"
definition MAX30003_ETAG_SHIFT :: nat where "MAX30003_ETAG_SHIFT = 3"
definition MAX30003_ECG_VOLTAGE_DATA_MASK :: uint32_t where
  "MAX30003_ECG_VOLTAGE_DATA_MASK = 0x3FFFF"
definition MAX30003_ECG_VOLTAGE_DATA_SHIFT :: nat where "MAX30003_ECG_VOLTAGE_DATA_SHIFT = 6"

definition MAX30003_FIFO_RST_D :: uint32_t where "MAX30003_FIFO_RST_D = push_bit 0 0x000000"

text \<open>The register bit masks that \<^verbatim>\<open>MAX30003_ConfigureRegisters\<close> uses.\<close>

definition MAX30003_EN_INT_DEFAULT_CONFIG :: uint32_t where
  "MAX30003_EN_INT_DEFAULT_CONFIG = push_bit 0 0x000003"
definition MAX30003_EN_INT_EINT_EN :: uint32_t where
  "MAX30003_EN_INT_EINT_EN = push_bit 23 1"
definition MAX30003_EN_INT_EOVF_EN :: uint32_t where
  "MAX30003_EN_INT_EOVF_EN = push_bit 22 1"
definition MAX30003_EN_INT_FSTINT_DIS :: uint32_t where
  "MAX30003_EN_INT_FSTINT_DIS = push_bit 21 0"
definition MAX30003_EN_INT_DCLOFFINT_DIS :: uint32_t where
  "MAX30003_EN_INT_DCLOFFINT_DIS = push_bit 20 0"
definition MAX30003_EN_INT_LONINT_DIS :: uint32_t where
  "MAX30003_EN_INT_LONINT_DIS = push_bit 11 0"
definition MAX30003_EN_INT_RRINT_DIS :: uint32_t where
  "MAX30003_EN_INT_RRINT_DIS = push_bit 10 0"
definition MAX30003_EN_INT_SAMP_DIS :: uint32_t where
  "MAX30003_EN_INT_SAMP_DIS = push_bit 9 0"
definition MAX30003_EN_INT_PLLINT_DIS :: uint32_t where
  "MAX30003_EN_INT_PLLINT_DIS = push_bit 8 0"
definition MAX30003_EN_INT_INTB_TYPE_OPEN_DRAIN_125K_PULLUP :: uint32_t where
  "MAX30003_EN_INT_INTB_TYPE_OPEN_DRAIN_125K_PULLUP = push_bit 0 0x3"
definition MAX30003_MNGR_INT_DEFAULT_CONFIG :: uint32_t where
  "MAX30003_MNGR_INT_DEFAULT_CONFIG = push_bit 0 0x780004"
definition MAX30003_MNGR_INT_EFIT_32 :: uint32_t where
  "MAX30003_MNGR_INT_EFIT_32 = push_bit 19 0x1F"
definition MAX30003_MNGR_INT_CLR_FAST_DIS :: uint32_t where
  "MAX30003_MNGR_INT_CLR_FAST_DIS = push_bit 6 0"
definition MAX30003_MNGR_INT_CLR_RRINT_ON_STATUS_REGISTER_READ_BACK :: uint32_t where
  "MAX30003_MNGR_INT_CLR_RRINT_ON_STATUS_REGISTER_READ_BACK = push_bit 4 0x0"
definition MAX30003_MNGR_INT_CLR_SAMP_SELF_CLEAR :: uint32_t where
  "MAX30003_MNGR_INT_CLR_SAMP_SELF_CLEAR = push_bit 2 1"
definition MAX30003_MNGR_INT_SAMP_IT_EVERY_SAMPLE :: uint32_t where
  "MAX30003_MNGR_INT_SAMP_IT_EVERY_SAMPLE = push_bit 0 0x0"
definition MAX30003_MNGR_DYN_DEFAULT_CONFIG :: uint32_t where
  "MAX30003_MNGR_DYN_DEFAULT_CONFIG = push_bit 0 0x3F0000"
definition MAX30003_MNGR_DYN_FAST_NORMAL_MODE :: uint32_t where
  "MAX30003_MNGR_DYN_FAST_NORMAL_MODE = push_bit 22 0x0"
definition MAX30003_MNGR_DYN_FAST_TH_SHIFT :: nat where
  "MAX30003_MNGR_DYN_FAST_TH_SHIFT = 16"
definition MAX30003_CNFG_GEN_DEFAULT_CONFIG :: uint32_t where
  "MAX30003_CNFG_GEN_DEFAULT_CONFIG = push_bit 0 0x000004"
definition MAX30003_CNFG_GEN_EN_ULP_LON_DIS :: uint32_t where
  "MAX30003_CNFG_GEN_EN_ULP_LON_DIS = push_bit 22 0x0"
definition MAX30003_CNFG_GEN_FMSTR_512HZ_ECG_PROGGRESION :: uint32_t where
  "MAX30003_CNFG_GEN_FMSTR_512HZ_ECG_PROGGRESION = push_bit 20 0x0"
definition MAX30003_CNFG_GEN_EN_ECG_EN :: uint32_t where
  "MAX30003_CNFG_GEN_EN_ECG_EN = push_bit 19 1"
definition MAX30003_CNFG_GEN_EN_DCLOFF_DIS :: uint32_t where
  "MAX30003_CNFG_GEN_EN_DCLOFF_DIS = push_bit 12 0x0"
definition MAX30003_CNFG_GEN_DCLOFF_IPOL_ECGP_PULLUP :: uint32_t where
  "MAX30003_CNFG_GEN_DCLOFF_IPOL_ECGP_PULLUP = push_bit 11 0"
definition MAX30003_CNFG_GEN_DCLOFF_IMAG_0nA :: uint32_t where
  "MAX30003_CNFG_GEN_DCLOFF_IMAG_0nA = push_bit 8 0x0"
definition MAX30003_CNFG_GEN_DCLOFF_VTH_VMID_PM_300 :: uint32_t where
  "MAX30003_CNFG_GEN_DCLOFF_VTH_VMID_PM_300 = push_bit 6 0x0"
definition MAX30003_CNFG_GEN_EN_RBIAS_DIS :: uint32_t where
  "MAX30003_CNFG_GEN_EN_RBIAS_DIS = push_bit 4 0x0"
definition MAX30003_CNFG_GEN_RBIASV_100M :: uint32_t where
  "MAX30003_CNFG_GEN_RBIASV_100M = push_bit 2 0x1"
definition MAX30003_CNFG_GEN_RBIASP_DIS :: uint32_t where
  "MAX30003_CNFG_GEN_RBIASP_DIS = push_bit 1 0"
definition MAX30003_CNFG_GEN_RBIASN_DIS :: uint32_t where
  "MAX30003_CNFG_GEN_RBIASN_DIS = push_bit 0 0"
definition MAX30003_CNFG_CAL_DEFAULT_CONFIG :: uint32_t where
  "MAX30003_CNFG_CAL_DEFAULT_CONFIG = push_bit 0 0x004800"
definition MAX30003_CNFG_CAL_EN_VCAL_DIS :: uint32_t where
  "MAX30003_CNFG_CAL_EN_VCAL_DIS = push_bit 22 0"
definition MAX30003_CNFG_CAL_VMODE_UNIPOLAR :: uint32_t where
  "MAX30003_CNFG_CAL_VMODE_UNIPOLAR = push_bit 21 0"
definition MAX30003_CNFG_CAL_VMAG_0_25mV :: uint32_t where
  "MAX30003_CNFG_CAL_VMAG_0_25mV = push_bit 20 0"
definition MAX30003_CNFG_CAL_FCAL_1Hz :: uint32_t where
  "MAX30003_CNFG_CAL_FCAL_1Hz = push_bit 12 0x4"
definition MAX30003_CNFG_CAL_FIFTY_DUTY_50 :: uint32_t where
  "MAX30003_CNFG_CAL_FIFTY_DUTY_50 = push_bit 11 1"
definition MAX30003_CNFG_CAL_THIGH_SHIFT :: nat where
  "MAX30003_CNFG_CAL_THIGH_SHIFT = 0"
definition MAX30003_CNFG_EMUX_DEFAULT_CONFIG :: uint32_t where
  "MAX30003_CNFG_EMUX_DEFAULT_CONFIG = push_bit 0 0x300000"
definition MAX30003_CNFG_EMUX_POL_NON_INVERTED :: uint32_t where
  "MAX30003_CNFG_EMUX_POL_NON_INVERTED = push_bit 23 0"
definition MAX30003_CNFG_EMUX_OPENP_INTERNALLY_ISOLATED :: uint32_t where
  "MAX30003_CNFG_EMUX_OPENP_INTERNALLY_ISOLATED = push_bit 21 1"
definition MAX30003_CNFG_EMUX_OPENN_INTERNALLY_ISOLATED :: uint32_t where
  "MAX30003_CNFG_EMUX_OPENN_INTERNALLY_ISOLATED = push_bit 20 1"
definition MAX30003_CNFG_EMUX_CALP_SEL_NONE :: uint32_t where
  "MAX30003_CNFG_EMUX_CALP_SEL_NONE = push_bit 18 0x0"
definition MAX30003_CNFG_EMUX_CALN_SEL_NONE :: uint32_t where
  "MAX30003_CNFG_EMUX_CALN_SEL_NONE = push_bit 16 0x0"
definition MAX30003_CNFG_ECG_DEFAULT_CONFIG :: uint32_t where
  "MAX30003_CNFG_ECG_DEFAULT_CONFIG = push_bit 0 0x805000"
definition MAX30003_CNFG_ECG_RATE_512 :: uint32_t where
  "MAX30003_CNFG_ECG_RATE_512 = push_bit 22 0x0"
definition MAX30003_CNFG_ECG_GAIN_80 :: uint32_t where
  "MAX30003_CNFG_ECG_GAIN_80 = push_bit 16 0x2"
definition MAX30003_CNFG_ECG_DHPF_EN :: uint32_t where
  "MAX30003_CNFG_ECG_DHPF_EN = push_bit 14 1"
definition MAX30003_CNFG_ECG_DLPF_40 :: uint32_t where
  "MAX30003_CNFG_ECG_DLPF_40 = push_bit 12 0x1"
definition MAX30003_CNFG_RTOR_DEFAULT_CONFIG :: uint32_t where
  "MAX30003_CNFG_RTOR_DEFAULT_CONFIG = push_bit 0 0x3F2300"
definition MAX30003_CNFG_RTOR_eWNDW_12 :: uint32_t where
  "MAX30003_CNFG_RTOR_eWNDW_12 = push_bit 20 0x3"
definition MAX30003_CNFG_RTOR_GAIN_DEFAULT :: uint32_t where
  "MAX30003_CNFG_RTOR_GAIN_DEFAULT = push_bit 16 0xF"
definition MAX30003_CNFG_RTOR_EN_RTOR_DIS :: uint32_t where
  "MAX30003_CNFG_RTOR_EN_RTOR_DIS = push_bit 15 0"
definition MAX30003_CNFG_RTOR_PAVG_DEFAULT :: uint32_t where
  "MAX30003_CNFG_RTOR_PAVG_DEFAULT = push_bit 12 0x2"
definition MAX30003_CNFG_RTOR_PTSF_SHIFT :: nat where
  "MAX30003_CNFG_RTOR_PTSF_SHIFT = 8"
definition MAX30003_CNFG_RTOR2_DEFAULT_CONFIG :: uint32_t where
  "MAX30003_CNFG_RTOR2_DEFAULT_CONFIG = push_bit 0 0x202400"
definition MAX30003_CNFG_RTOR2_HOFF_SHIFT :: nat where
  "MAX30003_CNFG_RTOR2_HOFF_SHIFT = 16"
definition MAX30003_CNFG_RTOR2_RAVG_DEFAULT :: uint32_t where
  "MAX30003_CNFG_RTOR2_RAVG_DEFAULT = push_bit 12 0x2"
definition MAX30003_CNFG_RTOR2_RHSF_SHIFT :: nat where
  "MAX30003_CNFG_RTOR2_RHSF_SHIFT = 8"

section \<open>max30003.c\<close>

subsection \<open>Decoding a FIFO word\<close>

text \<open>The 32-bit result of the shift and mask is converted to the return type.\<close>

definition MAX30003_ExtractETag :: "uint32_t \<Rightarrow> uint8_t" where
  "MAX30003_ExtractETag fifo_data =
     ucast (drop_bit MAX30003_ETAG_SHIFT fifo_data AND MAX30003_ETAG_MASK)"

definition MAX30003_ExtractECGData :: "uint32_t \<Rightarrow> uint32_t" where
  "MAX30003_ExtractECGData fifo_data =
     drop_bit MAX30003_ECG_VOLTAGE_DATA_SHIFT fifo_data AND MAX30003_ECG_VOLTAGE_DATA_MASK"

subsection \<open>Register transport\<close>

definition MAX30003_SPI_TransmitReceive ::
  "MAX30003_HandleTypeDef \<Rightarrow> uint8_t list \<Rightarrow> uint8_t list \<Rightarrow> uint16_t \<Rightarrow> bus
     \<Rightarrow> HAL_StatusTypeDef \<times> uint8_t list \<times> bus" where
  "MAX30003_SPI_TransmitReceive hmax tx_data rx_data Size w =
     (let w1 = HAL_GPIO_WritePin (cs_port hmax) (cs_pin hmax) GPIO_PIN_RESET w;
          (status, rx_data', w2) =
            HAL_SPI_TransmitReceive (hspi hmax) tx_data rx_data Size MAX30003_SPI_TIMEOUT w1;
          w3 = HAL_GPIO_WritePin (cs_port hmax) (cs_pin hmax) GPIO_PIN_SET w2
      in (status, rx_data', w3))"

text \<open>
  \<^verbatim>\<open>reg << 1\<close> is computed in \<^verbatim>\<open>int\<close> and converted to \<^verbatim>\<open>uint8_t\<close> when it is stored in
  \<^verbatim>\<open>tx_buf[0]\<close>. The second argument is the value \<^verbatim>\<open>*data\<close> holds before the call, the
  second component of the result the value it holds after.
\<close>

definition MAX30003_ReadReg ::
  "MAX30003_HandleTypeDef \<Rightarrow> uint8_t \<Rightarrow> uint32_t \<Rightarrow> bus
     \<Rightarrow> HAL_StatusTypeDef \<times> uint32_t \<times> bus" where
  "MAX30003_ReadReg hmax reg data w =
     (let tx_buf = [ucast (push_bit 1 (ucast reg :: uint32_t) OR 0x01), 0, 0, 0];
          rx_buf = [0, 0, 0, 0];
          (status, rx_buf, w') = MAX30003_SPI_TransmitReceive hmax tx_buf rx_buf 4 w
      in if status = HAL_OK
         then (status,
               push_bit 16 (ucast (rx_buf ! 1)) OR
               push_bit 8 (ucast (rx_buf ! 2)) OR
               ucast (rx_buf ! 3),
               w')
         else (status, data, w'))"

definition MAX30003_WriteReg ::
  "MAX30003_HandleTypeDef \<Rightarrow> uint8_t \<Rightarrow> uint32_t \<Rightarrow> bus \<Rightarrow> HAL_StatusTypeDef \<times> bus" where
  "MAX30003_WriteReg hmax reg data w =
     (let tx_buf = [ucast (push_bit 1 (ucast reg :: uint32_t) AND 0xFE),
                    ucast (drop_bit 16 data AND 0xFF),
                    ucast (drop_bit 8 data AND 0xFF),
                    ucast (data AND 0xFF)];
          w1 = HAL_GPIO_WritePin (cs_port hmax) (cs_pin hmax) GPIO_PIN_RESET w;
          (status, w2) = HAL_SPI_Transmit (hspi hmax) tx_buf 4 MAX30003_SPI_TIMEOUT w1;
          w3 = HAL_GPIO_WritePin (cs_port hmax) (cs_pin hmax) GPIO_PIN_SET w2
      in (status, w3))"

subsection \<open>FIFO read\<close>

text \<open>
  \<^verbatim>\<open>fifo_data\<close> is a pointer to the caller's array: \<open>None\<close> is \<^verbatim>\<open>NULL\<close>, \<open>Some a\<close>
  points to the first of \<open>length a\<close> words. A store through \<^verbatim>\<open>NULL\<close> or past the end of
  the array is undefined behaviour in C; the model stops there with a fault.
\<close>

datatype fault = NullPointerStore | OutOfBoundsStore

definition store_u32 ::
  "uint32_t list option \<Rightarrow> nat \<Rightarrow> uint32_t \<Rightarrow> fault + uint32_t list option" where
  "store_u32 p i v =
     (case p of
        None \<Rightarrow> Inl NullPointerStore
      | Some a \<Rightarrow> if i < length a then Inr (Some (a[i := v])) else Inl OutOfBoundsStore)"

text \<open>
  The \<^verbatim>\<open>for\<close> loop of \<^verbatim>\<open>MAX30003_ReadFIFO\<close>, entered at its test. The counter \<^verbatim>\<open>i\<close> is a
  \<^verbatim>\<open>uint8_t\<close> that is incremented only while it is below \<^verbatim>\<open>count\<close>, so it never wraps
  and is kept as a natural number.
\<close>

function ReadFIFO_loop ::
  "MAX30003_HandleTypeDef \<Rightarrow> uint8_t \<Rightarrow> nat \<Rightarrow> HAL_StatusTypeDef \<Rightarrow> uint8_t list
     \<Rightarrow> uint8_t list \<Rightarrow> uint32_t list option \<Rightarrow> bus
     \<Rightarrow> (fault + HAL_StatusTypeDef) \<times> uint32_t list option \<times> bus" where
  "ReadFIFO_loop hmax count i status tx_buf rx_buf fifo_data w =
     (if i < unat count \<and> status = HAL_OK
      then (let (status', rx_buf', w') = MAX30003_SPI_TransmitReceive hmax tx_buf rx_buf 4 w
            in case store_u32 fifo_data i
                      (push_bit 16 (ucast (rx_buf' ! 1)) OR
                       push_bit 8 (ucast (rx_buf' ! 2)) OR
                       ucast (rx_buf' ! 3)) of
                 Inl f \<Rightarrow> (Inl f, fifo_data, w')
               | Inr fifo_data' \<Rightarrow>
                   ReadFIFO_loop hmax count (i + 1) status'
                     (if i = 0 then tx_buf[0 := 0x00] else tx_buf) rx_buf' fifo_data' w')
      else (Inr status, fifo_data, w))"
  by pat_completeness auto
termination
  by (relation "measure (\<lambda>(hmax, count, i, status, tx_buf, rx_buf, fifo_data, w). unat count - i)")
     auto

definition MAX30003_ReadFIFO ::
  "MAX30003_HandleTypeDef \<Rightarrow> uint32_t list option \<Rightarrow> uint8_t \<Rightarrow> bus
     \<Rightarrow> (fault + HAL_StatusTypeDef) \<times> uint32_t list option \<times> bus" where
  "MAX30003_ReadFIFO hmax fifo_data count w =
     (let tx_buf = [0, 0, 0, 0];
          rx_buf = [0, 0, 0, 0];
          status = HAL_OK;
          tx_buf = tx_buf[0 := ucast (push_bit 1 (ucast (if 1 < count
                                                          then MAX30003_FIFO_CMD_ECG_BURST
                                                          else MAX30003_FIFO_CMD_ECG) :: uint32_t)
                                      OR 0x01)]
      in ReadFIFO_loop hmax count 0 status tx_buf rx_buf fifo_data w)"

subsection \<open>Interrupt status\<close>

text \<open>
  The second argument is the value \<^verbatim>\<open>*enabled_active\<close> holds before the call, the second
  component of the result the value it holds after.
\<close>

definition MAX30003_GetInterruptStatus ::
  "MAX30003_HandleTypeDef \<Rightarrow> uint32_t \<Rightarrow> bus \<Rightarrow> HAL_StatusTypeDef \<times> uint32_t \<times> bus" where
  "MAX30003_GetInterruptStatus hmax enabled_active w =
     (let raw_status = 0;
          en_int_reg = 0;
          (ret, raw_status, w1) = MAX30003_ReadReg hmax MAX30003_REG_STATUS raw_status w
      in if ret \<noteq> HAL_OK then (ret, enabled_active, w1)
         else let (ret, en_int_reg, w2) = MAX30003_ReadReg hmax MAX30003_REG_EN_INT en_int_reg w1
              in if ret \<noteq> HAL_OK then (ret, enabled_active, w2)
                 else (HAL_OK, raw_status AND en_int_reg AND 0xF00F00, w2))"

section \<open>max30003\_example.c\<close>

subsection \<open>Interrupt handler\<close>

text \<open>
  The local \<^verbatim>\<open>enabled_active\<close> is declared without an initialiser: the second argument is
  the indeterminate value it starts with. The status returned by
  \<^verbatim>\<open>MAX30003_GetInterruptStatus\<close>, by \<^verbatim>\<open>MAX30003_ReadFIFO\<close> and by \<^verbatim>\<open>MAX30003_WriteReg\<close> is
  dropped. The six remaining \<^verbatim>\<open>if\<close> statements have empty bodies.
\<close>

definition MAX30003_IRQHandler ::
  "MAX30003_HandleTypeDef \<Rightarrow> uint32_t \<Rightarrow> bus \<Rightarrow> (fault + unit) \<times> bus" where
  "MAX30003_IRQHandler hmax enabled_active w =
     (let (_, enabled_active, w1) = MAX30003_GetInterruptStatus hmax enabled_active w;
          (r, w2) = (if enabled_active AND MAX30003_INT_EINT \<noteq> 0
                     then (let (r, _, w') = MAX30003_ReadFIFO hmax None MAX30003_FIFO_LENGTH w1
                           in (r, w'))
                     else (Inr HAL_OK, w1))
      in case r of
           Inl f \<Rightarrow> (Inl f, w2)
         | Inr _ \<Rightarrow>
             if enabled_active AND MAX30003_INT_EOVF \<noteq> 0
             then (Inr (),
                   snd (MAX30003_WriteReg hmax MAX30003_REG_FIFO_RST MAX30003_FIFO_RST_D w2))
             else (Inr (), w2))"

subsection \<open>Register configuration\<close>

text \<open>
  An argument \<^verbatim>\<open>D | o1 | ... | on\<close> of \<^verbatim>\<open>MAX30003_ConfigureRegisters\<close>: a default value
  ORed with option values, which C groups from the left. The spec calls it the
  configuration assembler.
\<close>

definition assemble :: "uint32_t \<Rightarrow> uint32_t list \<Rightarrow> uint32_t" where
  "assemble base options = foldl (OR) base options"

text \<open>
  A run of statements \<^verbatim>\<open>if((ret = MAX30003_WriteReg(hmax, reg, value)) != HAL_OK) return ret;\<close>
  closed by \<^verbatim>\<open>return HAL_OK;\<close>.
\<close>

fun write_each ::
  "MAX30003_HandleTypeDef \<Rightarrow> (uint8_t \<times> uint32_t) list \<Rightarrow> bus \<Rightarrow> HAL_StatusTypeDef \<times> bus" where
  "write_each hmax [] w = (HAL_OK, w)"
| "write_each hmax ((reg, v) # rest) w =
     (let (ret, w') = MAX30003_WriteReg hmax reg v w
      in if ret \<noteq> HAL_OK then (ret, w') else write_each hmax rest w')"

definition ConfigureRegisters_writes :: "(uint8_t \<times> uint32_t) list" where
  "ConfigureRegisters_writes =
      [
       (MAX30003_REG_EN_INT,
        assemble MAX30003_EN_INT_DEFAULT_CONFIG
          [MAX30003_EN_INT_EINT_EN,
           MAX30003_EN_INT_EOVF_EN,
           MAX30003_EN_INT_FSTINT_DIS,
           MAX30003_EN_INT_DCLOFFINT_DIS,
           MAX30003_EN_INT_LONINT_DIS,
           MAX30003_EN_INT_RRINT_DIS,
           MAX30003_EN_INT_SAMP_DIS,
           MAX30003_EN_INT_PLLINT_DIS,
           MAX30003_EN_INT_INTB_TYPE_OPEN_DRAIN_125K_PULLUP]),
       (MAX30003_REG_EN_INT2,
        assemble MAX30003_EN_INT_DEFAULT_CONFIG
          [MAX30003_EN_INT_EINT_EN,
           MAX30003_EN_INT_EOVF_EN,
           MAX30003_EN_INT_FSTINT_DIS,
           MAX30003_EN_INT_DCLOFFINT_DIS,
           MAX30003_EN_INT_LONINT_DIS,
           MAX30003_EN_INT_RRINT_DIS,
           MAX30003_EN_INT_SAMP_DIS,
           MAX30003_EN_INT_PLLINT_DIS,
           MAX30003_EN_INT_INTB_TYPE_OPEN_DRAIN_125K_PULLUP]),
       (MAX30003_REG_MNGR_INT,
        assemble MAX30003_MNGR_INT_DEFAULT_CONFIG
          [MAX30003_MNGR_INT_EFIT_32,
           MAX30003_MNGR_INT_CLR_FAST_DIS,
           MAX30003_MNGR_INT_CLR_RRINT_ON_STATUS_REGISTER_READ_BACK,
           MAX30003_MNGR_INT_CLR_SAMP_SELF_CLEAR,
           MAX30003_MNGR_INT_SAMP_IT_EVERY_SAMPLE]),
       (MAX30003_REG_MNGR_DYN,
        assemble MAX30003_MNGR_DYN_DEFAULT_CONFIG
          [MAX30003_MNGR_DYN_FAST_NORMAL_MODE,
           push_bit MAX30003_MNGR_DYN_FAST_TH_SHIFT 0x3F]),
       (MAX30003_REG_CNFG_GEN,
        assemble MAX30003_CNFG_GEN_DEFAULT_CONFIG
          [MAX30003_CNFG_GEN_EN_ULP_LON_DIS,
           MAX30003_CNFG_GEN_FMSTR_512HZ_ECG_PROGGRESION,
           MAX30003_CNFG_GEN_EN_ECG_EN,
           MAX30003_CNFG_GEN_EN_DCLOFF_DIS,
           MAX30003_CNFG_GEN_DCLOFF_IPOL_ECGP_PULLUP,
           MAX30003_CNFG_GEN_DCLOFF_IMAG_0nA,
           MAX30003_CNFG_GEN_DCLOFF_VTH_VMID_PM_300,
           MAX30003_CNFG_GEN_EN_RBIAS_DIS,
           MAX30003_CNFG_GEN_RBIASV_100M,
           MAX30003_CNFG_GEN_RBIASP_DIS,
           MAX30003_CNFG_GEN_RBIASN_DIS]),
       (MAX30003_REG_CNFG_CAL,
        assemble MAX30003_CNFG_CAL_DEFAULT_CONFIG
          [MAX30003_CNFG_CAL_EN_VCAL_DIS,
           MAX30003_CNFG_CAL_VMODE_UNIPOLAR,
           MAX30003_CNFG_CAL_VMAG_0_25mV,
           MAX30003_CNFG_CAL_FCAL_1Hz,
           MAX30003_CNFG_CAL_FIFTY_DUTY_50,
           push_bit MAX30003_CNFG_CAL_THIGH_SHIFT 0x000]),
       (MAX30003_REG_CNFG_EMUX,
        assemble MAX30003_CNFG_EMUX_DEFAULT_CONFIG
          [MAX30003_CNFG_EMUX_POL_NON_INVERTED,
           MAX30003_CNFG_EMUX_OPENP_INTERNALLY_ISOLATED,
           MAX30003_CNFG_EMUX_OPENN_INTERNALLY_ISOLATED,
           MAX30003_CNFG_EMUX_CALP_SEL_NONE,
           MAX30003_CNFG_EMUX_CALN_SEL_NONE]),
       (MAX30003_REG_CNFG_ECG,
        assemble MAX30003_CNFG_ECG_DEFAULT_CONFIG
          [MAX30003_CNFG_ECG_RATE_512,
           MAX30003_CNFG_ECG_GAIN_80,
           MAX30003_CNFG_ECG_DHPF_EN,
           MAX30003_CNFG_ECG_DLPF_40]),
       (MAX30003_REG_CNFG_RTOR1,
        assemble MAX30003_CNFG_RTOR_DEFAULT_CONFIG
          [MAX30003_CNFG_RTOR_eWNDW_12,
           MAX30003_CNFG_RTOR_GAIN_DEFAULT,
           MAX30003_CNFG_RTOR_EN_RTOR_DIS,
           MAX30003_CNFG_RTOR_PAVG_DEFAULT,
           push_bit MAX30003_CNFG_RTOR_PTSF_SHIFT 0x3]),
       (MAX30003_REG_CNFG_RTOR2,
        assemble MAX30003_CNFG_RTOR2_DEFAULT_CONFIG
          [push_bit MAX30003_CNFG_RTOR2_HOFF_SHIFT 0x20,
           MAX30003_CNFG_RTOR2_RAVG_DEFAULT,
           push_bit MAX30003_CNFG_RTOR2_RHSF_SHIFT 0x4])
      ]"

definition MAX30003_ConfigureRegisters ::
  "MAX30003_HandleTypeDef \<Rightarrow> bus \<Rightarrow> HAL_StatusTypeDef \<times> bus" where
  "MAX30003_ConfigureRegisters hmax w = write_each hmax ConfigureRegisters_writes w"

section \<open>Reading the results\<close>

text \<open>One full-duplex transfer with chip select driven low before it and high after it.\<close>

definition cs_exchange :: "MAX30003_HandleTypeDef \<Rightarrow> uint8_t list \<Rightarrow> hal_call list" where
  "cs_exchange hmax tx =
     [WritePin (cs_port hmax) (cs_pin hmax) GPIO_PIN_RESET,
      TransmitReceive (hspi hmax) tx,
      WritePin (cs_port hmax) (cs_pin hmax) GPIO_PIN_SET]"

text \<open>
  The words the loop of \<^verbatim>\<open>MAX30003_ReadFIFO\<close> puts together, one for each transfer answer
  it consumes, starting from the receive buffer \<open>rx\<close>: each answer is stored into the
  receive buffer, and the word is built from bytes 1..3 of the buffer.
\<close>

fun fifo_words :: "uint8_t list \<Rightarrow> (HAL_StatusTypeDef \<times> uint8_t list) list \<Rightarrow> uint32_t list" where
  "fifo_words rx [] = []"
| "fifo_words rx (r # rs) =
     (let rx' = received_into (take 4 (snd r)) rx
      in (push_bit 16 (ucast (rx' ! 1)) OR push_bit 8 (ucast (rx' ! 2)) OR ucast (rx' ! 3))
         # fifo_words rx' rs)"

section \<open>Facts about the conversions\<close>

lemma unat_u8_u32: "unat (ucast (x :: uint8_t) :: uint32_t) = unat x"
proof -
  have "unat x < 2 ^ 8" using unsigned_less [of x, where ?'a = nat] by simp
  then have "unat x < 2 ^ 32" by simp
  then show ?thesis by (simp add: unsigned_ucast_eq take_bit_nat_eq_self)
qed

lemma read_cmd_byte:
  "(ucast (push_bit 1 (ucast reg :: uint32_t) OR 0x01) :: uint8_t) = push_bit 1 reg OR 1"
  apply (rule bit_word_eqI)
  apply (simp only: bit_simps)
  apply (auto simp: bit_simps)
  done

lemma write_cmd_byte:
  "(ucast (push_bit 1 (ucast reg :: uint32_t) AND 0xFE) :: uint8_t) = push_bit 1 reg"
proof -
  have "(0xFE :: uint32_t) = push_bit 1 (mask 7)" by (simp add: mask_eq_exp_minus_1)
  then show ?thesis
    apply (simp only:)
    apply (rule bit_word_eqI)
    apply (simp only: bit_simps)
    apply (auto simp: bit_simps)
    done
qed

lemma next_reply_calls [simp]: "next_reply (w\<lparr>calls := c\<rparr>) = next_reply w"
  by (simp add: next_reply_def)

lemma next_reply_Cons: "replies w = r # rs \<Longrightarrow> next_reply w = r"
  by (simp add: next_reply_def)

lemma length_received_into [simp]: "length (received_into rcv buf) = length buf"
  by (simp add: received_into_def)

lemma received_into4 [simp]:
  "received_into [r0, r1, r2, r3] [a, b, c, d] = [r0, r1, r2, r3]"
  by (simp add: received_into_def)

lemma reg24_bytes:
  "push_bit 16 (ucast (ucast (drop_bit 16 (s :: 24 word)) :: uint8_t)) OR
   push_bit 8 (ucast (ucast (drop_bit 8 s) :: uint8_t)) OR
   ucast (ucast s :: uint8_t) = (ucast s :: uint32_t)"
  apply (rule bit_word_eqI)
  apply (simp only: bit_simps)
  subgoal for n by (cases "16 \<le> n") (auto simp: bit_simps dest: bit_imp_le_length)
  done

lemma low24_bytes:
  "push_bit 16 (ucast (ucast (drop_bit 16 v AND 0xFF) :: uint8_t)) OR
   push_bit 8 (ucast (ucast (drop_bit 8 v AND 0xFF) :: uint8_t)) OR
   ucast (ucast (v AND 0xFF) :: uint8_t) = (v AND 0xFFFFFF :: uint32_t)"
proof -
  have m8: "(0xFF :: uint32_t) = mask 8" by (simp add: mask_eq_exp_minus_1)
  have m24: "(0xFFFFFF :: uint32_t) = mask 24" by (simp add: mask_eq_exp_minus_1)
  show ?thesis
    unfolding m8 m24
    apply (rule bit_word_eqI)
    apply (simp only: bit_simps)
    subgoal for n by (cases "16 \<le> n") (auto simp: bit_simps)
    done
qed

lemma SPI_TransmitReceive_eq:
  "MAX30003_SPI_TransmitReceive hmax tx rx 4 w =
     (fst (next_reply w), received_into (take 4 (snd (next_reply w))) rx,
      w\<lparr>replies := tl (replies w), calls := calls w @ cs_exchange hmax (take 4 tx)\<rparr>)"
  by (simp add: MAX30003_SPI_TransmitReceive_def HAL_SPI_TransmitReceive_def
      HAL_GPIO_WritePin_def cs_exchange_def split: prod.splits)

lemma ReadReg_eq:
  "MAX30003_ReadReg hmax reg data w =
     (fst (next_reply w),
      (if fst (next_reply w) = HAL_OK
       then (let rx = received_into (take 4 (snd (next_reply w))) [0, 0, 0, 0]
             in push_bit 16 (ucast (rx ! 1)) OR push_bit 8 (ucast (rx ! 2)) OR ucast (rx ! 3))
       else data),
      w\<lparr>replies := tl (replies w),
        calls := calls w @ cs_exchange hmax [push_bit 1 reg OR 1, 0, 0, 0]\<rparr>)"
  unfolding MAX30003_ReadReg_def SPI_TransmitReceive_eq read_cmd_byte
  by (simp add: Let_def)

lemma WriteReg_eq:
  "MAX30003_WriteReg hmax reg v w =
     (fst (next_reply w),
      w\<lparr>replies := tl (replies w),
        calls := calls w @
          [WritePin (cs_port hmax) (cs_pin hmax) GPIO_PIN_RESET,
           Transmit (hspi hmax)
             [push_bit 1 reg, ucast (drop_bit 16 v AND 0xFF),
              ucast (drop_bit 8 v AND 0xFF), ucast (v AND 0xFF)],
           WritePin (cs_port hmax) (cs_pin hmax) GPIO_PIN_SET]\<rparr>)"
  unfolding MAX30003_WriteReg_def write_cmd_byte
  by (simp add: Let_def HAL_SPI_Transmit_def HAL_GPIO_WritePin_def)

declare ReadFIFO_loop.simps [simp del]

lemma store_u32_Some:
  "i < length a \<Longrightarrow> store_u32 (Some a) i v = Inr (Some (a[i := v]))"
  by (simp add: store_u32_def)

lemma ReadFIFO_loop_continue:
  "\<lbrakk>unat count - i = n; 0 < i; i \<le> unat count; unat count \<le> length buf;
    n \<le> length (replies w); \<forall>r\<in>set (take n (replies w)). fst r = HAL_OK\<rbrakk>
   \<Longrightarrow> \<exists>buf'. length buf' = length buf \<and>
         ReadFIFO_loop hmax count i HAL_OK [0, 0, 0, 0] rx (Some buf) w =
           (Inr HAL_OK, Some buf',
            w\<lparr>replies := drop n (replies w),
              calls := calls w @ concat (replicate n (cs_exchange hmax [0, 0, 0, 0]))\<rparr>)"
proof (induction n arbitrary: i rx buf w)
  case 0
  then show ?case by (simp add: ReadFIFO_loop.simps)
next
  case (Suc n)
  from Suc.prems have lt: "i < unat count" and ib: "i < length buf" by simp_all
  from Suc.prems obtain r rs where rs: "replies w = r # rs"
    by (cases "replies w") simp_all
  with Suc.prems have ok: "fst r = HAL_OK" by simp
  let ?w' = "w\<lparr>replies := tl (replies w),
                calls := calls w @ cs_exchange hmax [0, 0, 0, 0]\<rparr>"
  let ?rx' = "received_into (take 4 (snd (next_reply w))) rx"
  let ?buf' = "buf[i := push_bit 16 (ucast (?rx' ! 1)) OR push_bit 8 (ucast (?rx' ! 2)) OR
                        ucast (?rx' ! 3)]"
  have nr: "fst (next_reply w) = HAL_OK" using rs ok by (simp add: next_reply_def)
  have step: "ReadFIFO_loop hmax count i HAL_OK [0, 0, 0, 0] rx (Some buf) w =
      ReadFIFO_loop hmax count (i + 1) HAL_OK [0, 0, 0, 0] ?rx' (Some ?buf') ?w'"
    using lt ib \<open>0 < i\<close>
    by (subst ReadFIFO_loop.simps) (simp add: SPI_TransmitReceive_eq store_u32_Some nr)
  have "\<exists>buf''. length buf'' = length ?buf' \<and>
         ReadFIFO_loop hmax count (i + 1) HAL_OK [0, 0, 0, 0] ?rx' (Some ?buf') ?w' =
           (Inr HAL_OK, Some buf'',
            ?w'\<lparr>replies := drop n (replies ?w'),
              calls := calls ?w' @ concat (replicate n (cs_exchange hmax [0, 0, 0, 0]))\<rparr>)"
  proof (rule Suc.IH)
    show "unat count - (i + 1) = n" using Suc.prems by simp
    show "0 < i + 1" by simp
    show "i + 1 \<le> unat count" using lt by simp
    show "unat count \<le> length ?buf'" using Suc.prems by simp
    show "n \<le> length (replies ?w')" using Suc.prems rs by simp
    show "\<forall>r\<in>set (take n (replies ?w')). fst r = HAL_OK" using Suc.prems rs by simp
  qed
  then obtain buf'' where l: "length buf'' = length buf"
    and e: "ReadFIFO_loop hmax count (i + 1) HAL_OK [0, 0, 0, 0] ?rx' (Some ?buf') ?w' =
           (Inr HAL_OK, Some buf'',
            ?w'\<lparr>replies := drop n (replies ?w'),
              calls := calls ?w' @ concat (replicate n (cs_exchange hmax [0, 0, 0, 0]))\<rparr>)"
    by auto
  show ?case
  proof (intro exI conjI)
    show "length buf'' = length buf" by (fact l)
    show "ReadFIFO_loop hmax count i HAL_OK [0, 0, 0, 0] rx (Some buf) w =
           (Inr HAL_OK, Some buf'',
            w\<lparr>replies := drop (Suc n) (replies w),
              calls := calls w @ concat (replicate (Suc n) (cs_exchange hmax [0, 0, 0, 0]))\<rparr>)"
      unfolding step e by (simp add: rs)
  qed
qed

lemma ReadFIFO_all_ok:
  assumes c: "0 < unat count" and b: "unat count \<le> length buf"
    and l: "unat count \<le> length (replies w)"
    and ok: "\<forall>r\<in>set (take (unat count) (replies w)). fst r = HAL_OK"
  shows "\<exists>buf'. length buf' = length buf \<and>
     MAX30003_ReadFIFO hmax (Some buf) count w =
       (Inr HAL_OK, Some buf',
        w\<lparr>replies := drop (unat count) (replies w),
          calls := calls w @
            cs_exchange hmax [push_bit 1 (if 1 < count then 0x20 else 0x21) OR 1, 0, 0, 0] @
            concat (replicate (unat count - 1) (cs_exchange hmax [0, 0, 0, 0]))\<rparr>)"
proof -
  let ?cmd = "push_bit 1 (if 1 < count then 0x20 else 0x21) OR 1 :: uint8_t"
  from c l obtain r rs where rs: "replies w = r # rs" by (cases "replies w") simp_all
  from c obtain m where m: "unat count = Suc m" by (cases "unat count") simp_all
  have b0: "0 < length buf" using c b by (cases buf) simp_all
  have r: "fst r = HAL_OK" using ok rs m by simp
  then have nr: "fst (next_reply w) = HAL_OK" using rs by (simp add: next_reply_def)
  let ?w' = "w\<lparr>replies := tl (replies w), calls := calls w @ cs_exchange hmax [?cmd, 0, 0, 0]\<rparr>"
  let ?rx' = "received_into (take 4 (snd (next_reply w))) [0, 0, 0, 0]"
  let ?buf' = "buf[0 := push_bit 16 (ucast (?rx' ! 1)) OR push_bit 8 (ucast (?rx' ! 2)) OR
                        ucast (?rx' ! 3)]"
  have first: "MAX30003_ReadFIFO hmax (Some buf) count w =
      ReadFIFO_loop hmax count 1 HAL_OK [0, 0, 0, 0] ?rx' (Some ?buf') ?w'"
    unfolding MAX30003_ReadFIFO_def Let_def read_cmd_byte
      MAX30003_FIFO_CMD_ECG_BURST_def MAX30003_FIFO_CMD_ECG_def
    using c b0
    by (subst ReadFIFO_loop.simps)
       (simp add: SPI_TransmitReceive_eq store_u32_Some nr)
  have "\<exists>buf''. length buf'' = length ?buf' \<and>
         ReadFIFO_loop hmax count 1 HAL_OK [0, 0, 0, 0] ?rx' (Some ?buf') ?w' =
           (Inr HAL_OK, Some buf'',
            ?w'\<lparr>replies := drop m (replies ?w'),
              calls := calls ?w' @ concat (replicate m (cs_exchange hmax [0, 0, 0, 0]))\<rparr>)"
  proof (rule ReadFIFO_loop_continue)
    show "unat count - 1 = m" using m by simp
    show "(0::nat) < 1" by simp
    show "1 \<le> unat count" using c by simp
    show "unat count \<le> length ?buf'" using b by simp
    show "m \<le> length (replies ?w')" using l rs m by simp
    show "\<forall>r\<in>set (take m (replies ?w')). fst r = HAL_OK" using ok rs m by simp
  qed
  then obtain buf'' where l: "length buf'' = length buf"
    and e: "ReadFIFO_loop hmax count 1 HAL_OK [0, 0, 0, 0] ?rx' (Some ?buf') ?w' =
           (Inr HAL_OK, Some buf'',
            ?w'\<lparr>replies := drop m (replies ?w'),
              calls := calls ?w' @ concat (replicate m (cs_exchange hmax [0, 0, 0, 0]))\<rparr>)"
    by auto
  show ?thesis
  proof (intro exI conjI)
    show "length buf'' = length buf" by (fact l)
    show "MAX30003_ReadFIFO hmax (Some buf) count w =
       (Inr HAL_OK, Some buf'',
        w\<lparr>replies := drop (unat count) (replies w),
          calls := calls w @ cs_exchange hmax [?cmd, 0, 0, 0] @
            concat (replicate (unat count - 1) (cs_exchange hmax [0, 0, 0, 0]))\<rparr>)"
      unfolding first e by (simp add: rs m)
  qed
qed

lemma length_fifo_words [simp]: "length (fifo_words rx rs) = length rs"
  by (induction rs arbitrary: rx) (simp_all add: Let_def)

lemma ReadFIFO_loop_step:
  "\<lbrakk>i < unat count; i < length buf\<rbrakk> \<Longrightarrow>
   ReadFIFO_loop hmax count i HAL_OK tx rx (Some buf) w =
     ReadFIFO_loop hmax count (Suc i) (fst (next_reply w))
       (if i = 0 then tx[0 := 0] else tx)
       (received_into (take 4 (snd (next_reply w))) rx)
       (Some (buf[i := hd (fifo_words rx [next_reply w])]))
       (w\<lparr>replies := tl (replies w), calls := calls w @ cs_exchange hmax (take 4 tx)\<rparr>)"
  by (subst ReadFIFO_loop.simps) (simp add: SPI_TransmitReceive_eq store_u32_Some Let_def)

lemma ReadFIFO_loop_stop:
  "status \<noteq> HAL_OK \<Longrightarrow>
   ReadFIFO_loop hmax count i status tx rx fifo_data w = (Inr status, fifo_data, w)"
  by (subst ReadFIFO_loop.simps) simp

text \<open>
  What \<^verbatim>\<open>MAX30003_ReadFIFO\<close> does when a transfer fails: if the first \<open>k\<close> transfers succeed
  and the next one does not, the loop makes \<open>k + 1\<close> exchanges, returns the status of the
  last, and has stored \<open>k + 1\<close> words: the store after the failed transfer is not guarded.
\<close>

lemma ReadFIFO_loop_fail:
  "\<lbrakk>i + k < unat count; unat count \<le> length buf; replies w = rs; k < length rs;
    \<forall>r\<in>set (take k rs). fst r = HAL_OK; fst (rs ! k) \<noteq> HAL_OK\<rbrakk> \<Longrightarrow>
   ReadFIFO_loop hmax count i HAL_OK tx rx (Some buf) w =
     (Inr (fst (rs ! k)),
      Some (take i buf @ fifo_words rx (take (Suc k) rs) @ drop (i + Suc k) buf),
      w\<lparr>replies := drop (Suc k) rs,
        calls := calls w @ cs_exchange hmax (take 4 tx) @
                 concat (replicate k (cs_exchange hmax
                   (take 4 (if i = 0 then tx[0 := 0] else tx))))\<rparr>)"
proof (induction k arbitrary: i tx rx buf w rs)
  case 0
  then obtain r rs' where rs: "rs = r # rs'" by (cases rs) simp_all
  with 0 have f: "fst r \<noteq> HAL_OK" by simp
  have nr: "next_reply w = r" using 0 rs by (simp add: next_reply_def)
  from 0 have i: "i < unat count" "i < length buf" by simp_all
  show ?case
    unfolding ReadFIFO_loop_step [OF i] nr
    using f i 0 rs
    by (simp add: ReadFIFO_loop_stop Let_def upd_conv_take_nth_drop)
next
  case (Suc k)
  then obtain r rs' where rs: "rs = r # rs'" by (cases rs) simp_all
  with Suc.prems have ok: "fst r = HAL_OK" by simp
  have nr: "next_reply w = r" using Suc.prems rs by (simp add: next_reply_def)
  from Suc.prems have i: "i < unat count" "i < length buf" by simp_all
  let ?tx' = "if i = 0 then tx[0 := 0] else tx"
  let ?rx' = "received_into (take 4 (snd r)) rx"
  let ?buf' = "buf[i := hd (fifo_words rx [r])]"
  let ?w' = "w\<lparr>replies := tl (replies w), calls := calls w @ cs_exchange hmax (take 4 tx)\<rparr>"
  have ih: "ReadFIFO_loop hmax count (Suc i) HAL_OK ?tx' ?rx' (Some ?buf') ?w' =
     (Inr (fst (rs' ! k)),
      Some (take (Suc i) ?buf' @ fifo_words ?rx' (take (Suc k) rs') @ drop (Suc i + Suc k) ?buf'),
      ?w'\<lparr>replies := drop (Suc k) rs',
        calls := calls ?w' @ cs_exchange hmax (take 4 ?tx') @
                 concat (replicate k (cs_exchange hmax
                   (take 4 (if Suc i = 0 then ?tx'[0 := 0] else ?tx'))))\<rparr>)"
  proof (rule Suc.IH)
    show "Suc i + k < unat count" using Suc.prems by simp
    show "unat count \<le> length ?buf'" using Suc.prems by simp
    show "replies ?w' = rs'" using Suc.prems rs by simp
    show "k < length rs'" using Suc.prems rs by simp
    show "\<forall>r\<in>set (take k rs'). fst r = HAL_OK" using Suc.prems rs by simp
    show "fst (rs' ! k) \<noteq> HAL_OK" using Suc.prems rs by simp
  qed
  have b: "take (Suc i) ?buf' @ fifo_words ?rx' (take (Suc k) rs') @ drop (Suc i + Suc k) ?buf'
      = take i buf @ fifo_words rx (take (Suc (Suc k)) rs) @ drop (i + Suc (Suc k)) buf"
    using i by (simp add: rs Let_def take_Suc_conv_app_nth)
  show ?case
    unfolding ReadFIFO_loop_step [OF i] nr ok ih b
    by (simp add: rs)
qed

lemma ReadFIFO_first_failure:
  assumes "k < unat count" and "unat count \<le> length buf" and "k < length (replies w)"
    and "\<forall>r\<in>set (take k (replies w)). fst r = HAL_OK"
    and "fst (replies w ! k) \<noteq> HAL_OK"
  shows "MAX30003_ReadFIFO hmax (Some buf) count w =
     (Inr (fst (replies w ! k)),
      Some (fifo_words [0, 0, 0, 0] (take (Suc k) (replies w)) @ drop (Suc k) buf),
      w\<lparr>replies := drop (Suc k) (replies w),
        calls := calls w @
          cs_exchange hmax [push_bit 1 (if 1 < count then 0x20 else 0x21) OR 1, 0, 0, 0] @
          concat (replicate k (cs_exchange hmax [0, 0, 0, 0]))\<rparr>)"
proof -
  let ?cmd = "push_bit 1 (if 1 < count then 0x20 else 0x21) OR 1 :: uint8_t"
  have "ReadFIFO_loop hmax count 0 HAL_OK [?cmd, 0, 0, 0] [0, 0, 0, 0] (Some buf) w =
     (Inr (fst (replies w ! k)),
      Some (take 0 buf @ fifo_words [0, 0, 0, 0] (take (Suc k) (replies w)) @
            drop (0 + Suc k) buf),
      w\<lparr>replies := drop (Suc k) (replies w),
        calls := calls w @ cs_exchange hmax (take 4 [?cmd, 0, 0, 0]) @
                 concat (replicate k (cs_exchange hmax
                   (take 4 (if (0::nat) = 0 then [?cmd, 0, 0, 0][0 := 0]
                            else [?cmd, 0, 0, 0]))))\<rparr>)"
    using assms by (intro ReadFIFO_loop_fail) simp_all
  then show ?thesis
    unfolding MAX30003_ReadFIFO_def Let_def read_cmd_byte
      MAX30003_FIFO_CMD_ECG_BURST_def MAX30003_FIFO_CMD_ECG_def
    by simp
qed

text \<open>
  With \<^verbatim>\<open>fifo_data = NULL\<close> and a count other than zero the first store, after the first
  exchange, goes through the null pointer.
\<close>

lemma ReadFIFO_NULL:
  "count \<noteq> 0 \<Longrightarrow>
   MAX30003_ReadFIFO hmax None count w =
     (Inl NullPointerStore, None,
      w\<lparr>replies := tl (replies w),
        calls := calls w @
          cs_exchange hmax [push_bit 1 (if 1 < count then 0x20 else 0x21) OR 1, 0, 0, 0]\<rparr>)"
  unfolding MAX30003_ReadFIFO_def Let_def read_cmd_byte
    MAX30003_FIFO_CMD_ECG_BURST_def MAX30003_FIFO_CMD_ECG_def
  by (subst ReadFIFO_loop.simps)
     (simp add: SPI_TransmitReceive_eq store_u32_def unat_gt_0)

text \<open>
  The handler, by what \<^verbatim>\<open>MAX30003_GetInterruptStatus\<close> leaves in \<^verbatim>\<open>enabled_active\<close>.
\<close>

lemma IRQHandler_EINT:
  assumes "MAX30003_GetInterruptStatus hmax u w = (ret, ea, w1)"
    and "ea AND MAX30003_INT_EINT \<noteq> 0"
  shows "MAX30003_IRQHandler hmax u w =
     (Inl NullPointerStore,
      w1\<lparr>replies := tl (replies w1),
         calls := calls w1 @ cs_exchange hmax [0x41, 0, 0, 0]\<rparr>)"
  using assms
  by (simp add: MAX30003_IRQHandler_def ReadFIFO_NULL MAX30003_FIFO_LENGTH_def)

lemma IRQHandler_EOVF_only:
  assumes "MAX30003_GetInterruptStatus hmax u w = (ret, ea, w1)"
    and "ea AND MAX30003_INT_EINT = 0" and "ea AND MAX30003_INT_EOVF \<noteq> 0"
  shows "MAX30003_IRQHandler hmax u w =
     (Inr (),
      w1\<lparr>replies := tl (replies w1),
         calls := calls w1 @
           [WritePin (cs_port hmax) (cs_pin hmax) GPIO_PIN_RESET,
            Transmit (hspi hmax) [0x14, 0, 0, 0],
            WritePin (cs_port hmax) (cs_pin hmax) GPIO_PIN_SET]\<rparr>)"
  using assms
  by (simp add: MAX30003_IRQHandler_def WriteReg_eq MAX30003_REG_FIFO_RST_def
      MAX30003_FIFO_RST_D_def)

lemma GetInterruptStatus_failed_first_read:
  assumes "fst (next_reply w) \<noteq> HAL_OK"
  shows "MAX30003_GetInterruptStatus hmax u w =
     (fst (next_reply w), u,
      w\<lparr>replies := tl (replies w),
        calls := calls w @ cs_exchange hmax [0x03, 0, 0, 0]\<rparr>)"
  using assms
  by (simp add: MAX30003_GetInterruptStatus_def ReadReg_eq MAX30003_REG_STATUS_def)

lemma bit_assemble:
  "bit (assemble base opts) n \<longleftrightarrow> bit base n \<or> (\<exists>x\<in>set opts. bit x n)"
  unfolding assemble_def
  by (induction opts arbitrary: base) (auto simp: bit_or_iff)

text \<open>
  The ten values \<^verbatim>\<open>MAX30003_ConfigureRegisters\<close> writes, in order, with their registers.
\<close>

lemma ConfigureRegisters_values:
  "ConfigureRegisters_writes =
     [(0x02, 0xC00003), (0x03, 0xC00003), (0x04, 0xF80004), (0x05, 0x3F0000),
      (0x10, 0x080004), (0x12, 0x004800), (0x14, 0x300000), (0x15, 0x825000),
      (0x1D, 0x3F2300), (0x1E, 0x202400)]"
  unfolding ConfigureRegisters_writes_def assemble_def
  by (simp add:
      MAX30003_REG_EN_INT_def MAX30003_REG_EN_INT2_def MAX30003_REG_MNGR_INT_def
      MAX30003_REG_MNGR_DYN_def MAX30003_REG_CNFG_GEN_def MAX30003_REG_CNFG_CAL_def
      MAX30003_REG_CNFG_EMUX_def MAX30003_REG_CNFG_ECG_def MAX30003_REG_CNFG_RTOR1_def
      MAX30003_REG_CNFG_RTOR2_def
MAX30003_EN_INT_DEFAULT_CONFIG_def
MAX30003_EN_INT_EINT_EN_def
MAX30003_EN_INT_EOVF_EN_def
MAX30003_EN_INT_FSTINT_DIS_def
MAX30003_EN_INT_DCLOFFINT_DIS_def
MAX30003_EN_INT_LONINT_DIS_def
MAX30003_EN_INT_RRINT_DIS_def
MAX30003_EN_INT_SAMP_DIS_def
MAX30003_EN_INT_PLLINT_DIS_def
MAX30003_EN_INT_INTB_TYPE_OPEN_DRAIN_125K_PULLUP_def
MAX30003_MNGR_INT_DEFAULT_CONFIG_def
MAX30003_MNGR_INT_EFIT_32_def
MAX30003_MNGR_INT_CLR_FAST_DIS_def
MAX30003_MNGR_INT_CLR_RRINT_ON_STATUS_REGISTER_READ_BACK_def
MAX30003_MNGR_INT_CLR_SAMP_SELF_CLEAR_def
MAX30003_MNGR_INT_SAMP_IT_EVERY_SAMPLE_def
MAX30003_MNGR_DYN_DEFAULT_CONFIG_def
MAX30003_MNGR_DYN_FAST_NORMAL_MODE_def
MAX30003_MNGR_DYN_FAST_TH_SHIFT_def
MAX30003_CNFG_GEN_DEFAULT_CONFIG_def
MAX30003_CNFG_GEN_EN_ULP_LON_DIS_def
MAX30003_CNFG_GEN_FMSTR_512HZ_ECG_PROGGRESION_def
MAX30003_CNFG_GEN_EN_ECG_EN_def
MAX30003_CNFG_GEN_EN_DCLOFF_DIS_def
MAX30003_CNFG_GEN_DCLOFF_IPOL_ECGP_PULLUP_def
MAX30003_CNFG_GEN_DCLOFF_IMAG_0nA_def
MAX30003_CNFG_GEN_DCLOFF_VTH_VMID_PM_300_def
MAX30003_CNFG_GEN_EN_RBIAS_DIS_def
MAX30003_CNFG_GEN_RBIASV_100M_def
MAX30003_CNFG_GEN_RBIASP_DIS_def
MAX30003_CNFG_GEN_RBIASN_DIS_def
MAX30003_CNFG_CAL_DEFAULT_CONFIG_def
MAX30003_CNFG_CAL_EN_VCAL_DIS_def
MAX30003_CNFG_CAL_VMODE_UNIPOLAR_def
MAX30003_CNFG_CAL_VMAG_0_25mV_def
MAX30003_CNFG_CAL_FCAL_1Hz_def
MAX30003_CNFG_CAL_FIFTY_DUTY_50_def
MAX30003_CNFG_CAL_THIGH_SHIFT_def
MAX30003_CNFG_EMUX_DEFAULT_CONFIG_def
MAX30003_CNFG_EMUX_POL_NON_INVERTED_def
MAX30003_CNFG_EMUX_OPENP_INTERNALLY_ISOLATED_def
MAX30003_CNFG_EMUX_OPENN_INTERNALLY_ISOLATED_def
MAX30003_CNFG_EMUX_CALP_SEL_NONE_def
MAX30003_CNFG_EMUX_CALN_SEL_NONE_def
MAX30003_CNFG_ECG_DEFAULT_CONFIG_def
MAX30003_CNFG_ECG_RATE_512_def
MAX30003_CNFG_ECG_GAIN_80_def
MAX30003_CNFG_ECG_DHPF_EN_def
MAX30003_CNFG_ECG_DLPF_40_def
MAX30003_CNFG_RTOR_DEFAULT_CONFIG_def
MAX30003_CNFG_RTOR_eWNDW_12_def
MAX30003_CNFG_RTOR_GAIN_DEFAULT_def
MAX30003_CNFG_RTOR_EN_RTOR_DIS_def
MAX30003_CNFG_RTOR_PAVG_DEFAULT_def
MAX30003_CNFG_RTOR_PTSF_SHIFT_def
MAX30003_CNFG_RTOR2_DEFAULT_CONFIG_def
MAX30003_CNFG_RTOR2_HOFF_SHIFT_def
MAX30003_CNFG_RTOR2_RAVG_DEFAULT_def
MAX30003_CNFG_RTOR2_RHSF_SHIFT_def)

section \<open>Decoding\<close>

text \<open>
  C1. For every 32-bit FIFO word, the tag is \<^verbatim>\<open>(w >> 3) & 0x7\<close> (the conversion to
  \<^verbatim>\<open>uint8_t\<close> loses nothing) and the sample is \<^verbatim>\<open>(w >> 6) & 0x3FFFF\<close>; read as numbers
  they are bits 3..5 and bits 6..23 of the word. Both are functions of the word alone:
  neither takes nor returns the bus.
\<close>

theorem extract_etag_ecg:
  "ucast (MAX30003_ExtractETag w) = (drop_bit 3 w AND 0x7 :: uint32_t)
   \<and> MAX30003_ExtractECGData w = drop_bit 6 w AND 0x3FFFF
   \<and> unat (MAX30003_ExtractETag w) = unat w div 8 mod 8
   \<and> unat (MAX30003_ExtractECGData w) = unat w div 64 mod 262144"
proof -
  have m7: "(7 :: uint32_t) = mask 3" by (simp add: mask_eq_exp_minus_1)
  have m18: "(0x3FFFF :: uint32_t) = mask 18" by (simp add: mask_eq_exp_minus_1)
  have e1: "ucast (MAX30003_ExtractETag w) = (drop_bit 3 w AND 0x7 :: uint32_t)"
    unfolding MAX30003_ExtractETag_def MAX30003_ETAG_SHIFT_def MAX30003_ETAG_MASK_def m7
    by (rule bit_word_eqI) (auto simp: bit_simps)
  have e2: "MAX30003_ExtractECGData w = drop_bit 6 w AND 0x3FFFF"
    by (simp add: MAX30003_ExtractECGData_def MAX30003_ECG_VOLTAGE_DATA_SHIFT_def
        MAX30003_ECG_VOLTAGE_DATA_MASK_def)
  have "unat (MAX30003_ExtractETag w) = unat (drop_bit 3 w AND mask 3)"
    using e1 unat_u8_u32 [of "MAX30003_ExtractETag w"] by (simp add: m7)
  also have "\<dots> = unat w div 8 mod 8"
    by (simp add: take_bit_eq_mod drop_bit_eq_div unat_div unat_mod
        flip: take_bit_eq_mask)
  finally have e3: "unat (MAX30003_ExtractETag w) = unat w div 8 mod 8" .
  have e4: "unat (MAX30003_ExtractECGData w) = unat w div 64 mod 262144"
    unfolding e2 m18
    by (simp add: take_bit_eq_mod drop_bit_eq_div unat_div unat_mod
        flip: take_bit_eq_mask)
  from e1 e2 e3 e4 show ?thesis by blast
qed

section \<open>Register transport\<close>

text \<open>
  C5. For every register address, \<^verbatim>\<open>MAX30003_ReadReg\<close> drives chip select low, hands the
  four bytes \<^verbatim>\<open>[(addr<<1)|1, 0, 0, 0]\<close> to one full-duplex transfer and drives chip select
  high, whatever the transfer answers; it returns the status of that transfer; and when
  the transfer succeeds with the bytes \<open>r0, r1, r2, r3\<close>, \<^verbatim>\<open>*data\<close> becomes
  \<^verbatim>\<open>r1<<16 | r2<<8 | r3\<close>.
\<close>

theorem read_reg_frame:
  "calls (snd (snd (MAX30003_ReadReg hmax reg data w))) =
     calls w @ [WritePin (cs_port hmax) (cs_pin hmax) GPIO_PIN_RESET,
                TransmitReceive (hspi hmax) [push_bit 1 reg OR 1, 0, 0, 0],
                WritePin (cs_port hmax) (cs_pin hmax) GPIO_PIN_SET]
   \<and> fst (MAX30003_ReadReg hmax reg data w) = fst (next_reply w)
   \<and> (next_reply w = (HAL_OK, [r0, r1, r2, r3]) \<longrightarrow>
        fst (snd (MAX30003_ReadReg hmax reg data w)) =
          push_bit 16 (ucast r1) OR push_bit 8 (ucast r2) OR ucast r3)"
  by (simp add: ReadReg_eq cs_exchange_def Let_def)

theorem read_reg_frame_witness:
  "calls (snd (snd (MAX30003_ReadReg \<lparr>hspi = 1, cs_port = 2, cs_pin = 16\<rparr> 0x01 77
      \<lparr>replies = [(HAL_OK, [0, 0x12, 0x34, 0x56])], calls = []\<rparr>))) =
     [WritePin 2 16 GPIO_PIN_RESET, TransmitReceive 1 [0x03, 0, 0, 0],
      WritePin 2 16 GPIO_PIN_SET]
   \<and> fst (MAX30003_ReadReg \<lparr>hspi = 1, cs_port = 2, cs_pin = 16\<rparr> 0x01 77
      \<lparr>replies = [(HAL_OK, [0, 0x12, 0x34, 0x56])], calls = []\<rparr>) = HAL_OK
   \<and> fst (snd (MAX30003_ReadReg \<lparr>hspi = 1, cs_port = 2, cs_pin = 16\<rparr> 0x01 77
      \<lparr>replies = [(HAL_OK, [0, 0x12, 0x34, 0x56])], calls = []\<rparr>)) = 0x123456"
  using read_reg_frame [where hmax = "\<lparr>hspi = 1, cs_port = 2, cs_pin = 16\<rparr>"
      and reg = 1 and data = 77
      and w = "\<lparr>replies = [(HAL_OK, [0, 0x12, 0x34, 0x56])], calls = []\<rparr>"
      and ?r0.0 = 0 and ?r1.0 = "0x12" and ?r2.0 = "0x34" and ?r3.0 = "0x56"]
  by (simp add: next_reply_def)

text \<open>
  C6. For every register address and every 32-bit value, \<^verbatim>\<open>MAX30003_WriteReg\<close> drives chip
  select low, transmits the four bytes
  \<^verbatim>\<open>[(addr<<1)&0xFE, (v>>16)&0xFF, (v>>8)&0xFF, v&0xFF]\<close> and drives chip select high. The
  three value bytes, put together most significant first, are \<^verbatim>\<open>v & 0xFFFFFF\<close>. The
  transfer is transmit-only: the result is the status of the transfer and nothing of a
  received payload.
\<close>

theorem write_reg_frame:
  "MAX30003_WriteReg hmax reg v w =
     (fst (next_reply w),
      w\<lparr>replies := tl (replies w),
        calls := calls w @
          [WritePin (cs_port hmax) (cs_pin hmax) GPIO_PIN_RESET,
           Transmit (hspi hmax)
             [push_bit 1 reg AND 0xFE, ucast (drop_bit 16 v AND 0xFF),
              ucast (drop_bit 8 v AND 0xFF), ucast (v AND 0xFF)],
           WritePin (cs_port hmax) (cs_pin hmax) GPIO_PIN_SET]\<rparr>)
   \<and> push_bit 16 (ucast (ucast (drop_bit 16 v AND 0xFF) :: uint8_t)) OR
     push_bit 8 (ucast (ucast (drop_bit 8 v AND 0xFF) :: uint8_t)) OR
     ucast (ucast (v AND 0xFF) :: uint8_t) = v AND 0xFFFFFF"
proof -
  have "push_bit 1 reg AND 0xFE = push_bit 1 reg" for reg :: uint8_t
  proof -
    have "(0xFE :: uint8_t) = push_bit 1 (mask 7)" by (simp add: mask_eq_exp_minus_1)
    then show ?thesis
      apply (simp only:)
      apply (rule bit_word_eqI)
      apply (simp only: bit_simps)
      apply (auto simp: bit_simps)
      done
  qed
  then show ?thesis by (simp only: WriteReg_eq low24_bytes simp_thms)
qed

section \<open>Interrupt status\<close>

text \<open>
  C2. \<^verbatim>\<open>MAX30003_GetInterruptStatus\<close> first exchanges the read command of STATUS (address
  0x01) and, only if that succeeded, then the read command of EN\_INT (address 0x02). When
  the device answers the two reads with the 24-bit contents \<open>status\<close> and \<open>en_int\<close>, most
  significant byte first, the call returns \<^verbatim>\<open>HAL_OK\<close> and \<^verbatim>\<open>*enabled_active\<close> becomes
  \<^verbatim>\<open>status & en_int & 0xF00F00\<close>.
\<close>

theorem get_interrupt_status_value:
  fixes status en_int :: "24 word"
  shows
  "calls (snd (snd (MAX30003_GetInterruptStatus hmax old w))) =
     calls w @ cs_exchange hmax [push_bit 1 0x01 OR 1, 0, 0, 0]
             @ (if fst (next_reply w) = HAL_OK
                then cs_exchange hmax [push_bit 1 0x02 OR 1, 0, 0, 0] else [])
   \<and> (replies w =
         (HAL_OK, [a, ucast (drop_bit 16 status), ucast (drop_bit 8 status), ucast status]) #
         (HAL_OK, [b, ucast (drop_bit 16 en_int), ucast (drop_bit 8 en_int), ucast en_int]) #
         rest \<longrightarrow>
       fst (MAX30003_GetInterruptStatus hmax old w) = HAL_OK \<and>
       fst (snd (MAX30003_GetInterruptStatus hmax old w)) =
         ucast status AND ucast en_int AND 0xF00F00)"
proof -
  have c: "calls (snd (snd (MAX30003_GetInterruptStatus hmax old w))) =
     calls w @ cs_exchange hmax [push_bit 1 0x01 OR 1, 0, 0, 0]
             @ (if fst (next_reply w) = HAL_OK
                then cs_exchange hmax [push_bit 1 0x02 OR 1, 0, 0, 0] else [])"
    by (simp add: MAX30003_GetInterruptStatus_def ReadReg_eq Let_def
        MAX30003_REG_STATUS_def MAX30003_REG_EN_INT_def)
  have v: "fst (MAX30003_GetInterruptStatus hmax old w) = HAL_OK \<and>
       fst (snd (MAX30003_GetInterruptStatus hmax old w)) =
         ucast status AND ucast en_int AND 0xF00F00"
    if r: "replies w =
         (HAL_OK, [a, ucast (drop_bit 16 status), ucast (drop_bit 8 status), ucast status]) #
         (HAL_OK, [b, ucast (drop_bit 16 en_int), ucast (drop_bit 8 en_int), ucast en_int]) #
         rest"
  proof -
    show ?thesis
      unfolding MAX30003_GetInterruptStatus_def ReadReg_eq Let_def
      by (simp add: next_reply_def r reg24_bytes)
  qed
  from c v show ?thesis by blast
qed

theorem get_interrupt_status_value_witness:
  "fst (snd (MAX30003_GetInterruptStatus \<lparr>hspi = 1, cs_port = 2, cs_pin = 16\<rparr> 77
      \<lparr>replies = [(HAL_OK, [0, 0xFF, 0xFF, 0xFF]), (HAL_OK, [0, 0xFF, 0xFF, 0xFF])],
       calls = []\<rparr>)) = 0xF00F00
   \<and> fst (snd (MAX30003_GetInterruptStatus \<lparr>hspi = 1, cs_port = 2, cs_pin = 16\<rparr> 77
      \<lparr>replies = [(HAL_OK, [0, 0, 0, 0]), (HAL_OK, [0, 0, 0, 0])], calls = []\<rparr>)) = 0
   \<and> fst (snd (MAX30003_GetInterruptStatus \<lparr>hspi = 1, cs_port = 2, cs_pin = 16\<rparr> 77
      \<lparr>replies = [(HAL_OK, [0, 0x80, 0, 0]), (HAL_OK, [0, 0x80, 0, 0x03])],
       calls = []\<rparr>)) = 0x800000"
  using
    get_interrupt_status_value [where hmax = "\<lparr>hspi = 1, cs_port = 2, cs_pin = 16\<rparr>"
      and old = 77 and status = "0xFFFFFF" and en_int = "0xFFFFFF" and a = 0 and b = 0
      and rest = "[]"
      and w = "\<lparr>replies = [(HAL_OK, [0, 0xFF, 0xFF, 0xFF]), (HAL_OK, [0, 0xFF, 0xFF, 0xFF])],
                calls = []\<rparr>"]
    get_interrupt_status_value [where hmax = "\<lparr>hspi = 1, cs_port = 2, cs_pin = 16\<rparr>"
      and old = 77 and status = 0 and en_int = 0 and a = 0 and b = 0 and rest = "[]"
      and w = "\<lparr>replies = [(HAL_OK, [0, 0, 0, 0]), (HAL_OK, [0, 0, 0, 0])], calls = []\<rparr>"]
    get_interrupt_status_value [where hmax = "\<lparr>hspi = 1, cs_port = 2, cs_pin = 16\<rparr>"
      and old = 77 and status = "0x800000" and en_int = "0x800003" and a = 0 and b = 0
      and rest = "[]"
      and w = "\<lparr>replies = [(HAL_OK, [0, 0x80, 0, 0]), (HAL_OK, [0, 0x80, 0, 0x03])],
                calls = []\<rparr>"]
  by simp

text \<open>
  C10. A call of \<^verbatim>\<open>MAX30003_ReadReg\<close> that does not return \<^verbatim>\<open>HAL_OK\<close> leaves \<^verbatim>\<open>*data\<close> as it
  was, and a call of \<^verbatim>\<open>MAX30003_GetInterruptStatus\<close> that does not return \<^verbatim>\<open>HAL_OK\<close> leaves
  \<^verbatim>\<open>*enabled_active\<close> as it was.
\<close>

theorem out_param_kept_on_error:
  "(fst (MAX30003_ReadReg hmax reg data w) \<noteq> HAL_OK \<longrightarrow>
      fst (snd (MAX30003_ReadReg hmax reg data w)) = data)
   \<and> (fst (MAX30003_GetInterruptStatus hmax enabled_active w) \<noteq> HAL_OK \<longrightarrow>
      fst (snd (MAX30003_GetInterruptStatus hmax enabled_active w)) = enabled_active)"
  by (simp add: ReadReg_eq MAX30003_GetInterruptStatus_def Let_def split: prod.splits)

theorem out_param_kept_on_error_witness:
  "fst (MAX30003_ReadReg \<lparr>hspi = 1, cs_port = 2, cs_pin = 16\<rparr> 0x0F 77
      \<lparr>replies = [(HAL_TIMEOUT, [0xAB, 0xCD])], calls = []\<rparr>) = HAL_TIMEOUT
   \<and> fst (snd (MAX30003_ReadReg \<lparr>hspi = 1, cs_port = 2, cs_pin = 16\<rparr> 0x0F 77
      \<lparr>replies = [(HAL_TIMEOUT, [0xAB, 0xCD])], calls = []\<rparr>)) = 77
   \<and> fst (MAX30003_GetInterruptStatus \<lparr>hspi = 1, cs_port = 2, cs_pin = 16\<rparr> 77
      \<lparr>replies = [(HAL_OK, [0, 0x80, 0, 0]), (HAL_ERROR, [0xAB])], calls = []\<rparr>) = HAL_ERROR
   \<and> fst (snd (MAX30003_GetInterruptStatus \<lparr>hspi = 1, cs_port = 2, cs_pin = 16\<rparr> 77
      \<lparr>replies = [(HAL_OK, [0, 0x80, 0, 0]), (HAL_ERROR, [0xAB])], calls = []\<rparr>)) = 77"
proof -
  let ?h = "\<lparr>hspi = 1, cs_port = 2, cs_pin = 16\<rparr>"
  let ?w1 = "\<lparr>replies = [(HAL_TIMEOUT, [0xAB, 0xCD])], calls = []\<rparr>"
  let ?w2 = "\<lparr>replies = [(HAL_OK, [0, 0x80, 0, 0]), (HAL_ERROR, [0xAB])], calls = []\<rparr>"
  have r: "fst (MAX30003_ReadReg ?h 0x0F 77 ?w1) = HAL_TIMEOUT"
    by (simp add: ReadReg_eq next_reply_def)
  have g: "fst (MAX30003_GetInterruptStatus ?h 77 ?w2) = HAL_ERROR"
    by (simp add: MAX30003_GetInterruptStatus_def ReadReg_eq next_reply_def)
  from r g
    out_param_kept_on_error [of ?h "0x0F" 77 ?w1 77]
    out_param_kept_on_error [of ?h "0x0F" 77 ?w2 77]
  show ?thesis by simp
qed

section \<open>FIFO read\<close>

text \<open>
  C7. On a call that stores into an array of at least \<^verbatim>\<open>count\<close> words and whose transfers
  all succeed, \<^verbatim>\<open>MAX30003_ReadFIFO\<close> with \<^verbatim>\<open>count = 1\<close> makes exactly one exchange, with
  command byte \<^verbatim>\<open>(0x21<<1)|1\<close>; with \<^verbatim>\<open>count > 1\<close> it makes one exchange with command byte
  \<^verbatim>\<open>(0x20<<1)|1\<close> followed by \<^verbatim>\<open>count - 1\<close> exchanges with command byte \<^verbatim>\<open>0x00\<close>, in that
  order, each bracketed by chip select; and it returns \<^verbatim>\<open>HAL_OK\<close>.
\<close>

theorem read_fifo_commands:
  assumes "unat count \<le> length buf"
    and "unat count \<le> length (replies w)"
    and "\<forall>r\<in>set (take (unat count) (replies w)). fst r = HAL_OK"
  shows "(count = 1 \<longrightarrow>
            calls (snd (snd (MAX30003_ReadFIFO hmax (Some buf) count w))) =
              calls w @ cs_exchange hmax [push_bit 1 0x21 OR 1, 0, 0, 0])
       \<and> (1 < count \<longrightarrow>
            calls (snd (snd (MAX30003_ReadFIFO hmax (Some buf) count w))) =
              calls w @ cs_exchange hmax [push_bit 1 0x20 OR 1, 0, 0, 0] @
              concat (replicate (unat count - 1) (cs_exchange hmax [0, 0, 0, 0])))
       \<and> fst (MAX30003_ReadFIFO hmax (Some buf) count w) = Inr HAL_OK"
proof (cases "count = 0")
  case True
  then show ?thesis
    by (simp add: MAX30003_ReadFIFO_def ReadFIFO_loop.simps)
next
  case False
  then have "0 < unat count" by (simp add: unat_gt_0)
  from ReadFIFO_all_ok [OF this assms, of hmax]
  obtain buf' where e: "MAX30003_ReadFIFO hmax (Some buf) count w =
       (Inr HAL_OK, Some buf',
        w\<lparr>replies := drop (unat count) (replies w),
          calls := calls w @
            cs_exchange hmax [push_bit 1 (if 1 < count then 0x20 else 0x21) OR 1, 0, 0, 0] @
            concat (replicate (unat count - 1) (cs_exchange hmax [0, 0, 0, 0]))\<rparr>)"
    by blast
  show ?thesis unfolding e by simp
qed

theorem read_fifo_commands_witness:
  "calls (snd (snd (MAX30003_ReadFIFO \<lparr>hspi = 1, cs_port = 2, cs_pin = 16\<rparr>
      (Some [0, 0, 0, 0]) 4
      \<lparr>replies = [(HAL_OK, [0, 0, 0, 0x40]), (HAL_OK, [0, 0, 0, 0x80]),
                  (HAL_OK, [0, 0, 0, 0xC0]), (HAL_OK, [0, 0, 1, 0x10])],
       calls = []\<rparr>))) =
     [WritePin 2 16 GPIO_PIN_RESET, TransmitReceive 1 [0x41, 0, 0, 0], WritePin 2 16 GPIO_PIN_SET,
      WritePin 2 16 GPIO_PIN_RESET, TransmitReceive 1 [0, 0, 0, 0], WritePin 2 16 GPIO_PIN_SET,
      WritePin 2 16 GPIO_PIN_RESET, TransmitReceive 1 [0, 0, 0, 0], WritePin 2 16 GPIO_PIN_SET,
      WritePin 2 16 GPIO_PIN_RESET, TransmitReceive 1 [0, 0, 0, 0], WritePin 2 16 GPIO_PIN_SET]
   \<and> calls (snd (snd (MAX30003_ReadFIFO \<lparr>hspi = 1, cs_port = 2, cs_pin = 16\<rparr>
      (Some [0]) 1 \<lparr>replies = [(HAL_OK, [0, 0, 0, 0x40])], calls = []\<rparr>))) =
     [WritePin 2 16 GPIO_PIN_RESET, TransmitReceive 1 [0x43, 0, 0, 0], WritePin 2 16 GPIO_PIN_SET]"
  using
    read_fifo_commands [of 4 "[0, 0, 0, 0]"
      "\<lparr>replies = [(HAL_OK, [0, 0, 0, 0x40]), (HAL_OK, [0, 0, 0, 0x80]),
                  (HAL_OK, [0, 0, 0, 0xC0]), (HAL_OK, [0, 0, 1, 0x10])],
        calls = []\<rparr>"
      "\<lparr>hspi = 1, cs_port = 2, cs_pin = 16\<rparr>"]
    read_fifo_commands [of 1 "[0]"
      "\<lparr>replies = [(HAL_OK, [0, 0, 0, 0x40])], calls = []\<rparr>"
      "\<lparr>hspi = 1, cs_port = 2, cs_pin = 16\<rparr>"]
  by (simp add: cs_exchange_def numeral_3_eq_3)

text \<open>
  C3. Five samples are requested into an array holding \<^verbatim>\<open>0xAAAAAA\<close> five times; the first
  two exchanges succeed with the words \<^verbatim>\<open>0x40\<close> and \<^verbatim>\<open>0x80\<close>, the third times out having
  received nothing. The call stops after the third exchange and returns \<^verbatim>\<open>HAL_TIMEOUT\<close>;
  entries 0 and 1 hold the two decoded words and entries 3 and 4 are untouched, but entry 2,
  the entry of the failed exchange, has been overwritten with what the receive buffer still
  held: the loop stores \<^verbatim>\<open>fifo_data[i]\<close> before it tests the status.
\<close>

theorem read_fifo_third_exchange_fails:
  "MAX30003_ReadFIFO \<lparr>hspi = 1, cs_port = 2, cs_pin = 16\<rparr>
     (Some [0xAAAAAA, 0xAAAAAA, 0xAAAAAA, 0xAAAAAA, 0xAAAAAA]) 5
     \<lparr>replies = [(HAL_OK, [0, 0, 0, 0x40]), (HAL_OK, [0, 0, 0, 0x80]), (HAL_TIMEOUT, []),
                 (HAL_OK, [0, 0, 0, 0xC0]), (HAL_OK, [0, 0, 1, 0x00])],
      calls = []\<rparr> =
   (Inr HAL_TIMEOUT,
    Some [0x40, 0x80, 0x80, 0xAAAAAA, 0xAAAAAA],
    \<lparr>replies = [(HAL_OK, [0, 0, 0, 0xC0]), (HAL_OK, [0, 0, 1, 0x00])],
     calls =
       [WritePin 2 16 GPIO_PIN_RESET, TransmitReceive 1 [0x41, 0, 0, 0], WritePin 2 16 GPIO_PIN_SET,
        WritePin 2 16 GPIO_PIN_RESET, TransmitReceive 1 [0, 0, 0, 0], WritePin 2 16 GPIO_PIN_SET,
        WritePin 2 16 GPIO_PIN_RESET, TransmitReceive 1 [0, 0, 0, 0], WritePin 2 16 GPIO_PIN_SET]\<rparr>)"
  by (simp add: MAX30003_ReadFIFO_def ReadFIFO_loop.simps SPI_TransmitReceive_eq store_u32_def
      next_reply_def received_into_def cs_exchange_def Let_def
      MAX30003_FIFO_CMD_ECG_BURST_def MAX30003_FIFO_CMD_ECG_def)

section \<open>Interrupt dispatch\<close>

text \<open>
  C4. The STATUS read times out, and the uninitialised local \<^verbatim>\<open>enabled_active\<close> happens to
  hold \<^verbatim>\<open>0x400000\<close>. \<^verbatim>\<open>MAX30003_IRQHandler\<close> drops the status of
  \<^verbatim>\<open>MAX30003_GetInterruptStatus\<close>, tests the bits of the local all the same, and writes 0
  to FIFO\_RST (command byte \<^verbatim>\<open>0x14\<close>): the pass is not aborted.
\<close>

theorem irq_handler_acts_after_failed_status_read:
  "MAX30003_IRQHandler \<lparr>hspi = 1, cs_port = 2, cs_pin = 16\<rparr> 0x400000
     \<lparr>replies = [(HAL_TIMEOUT, []), (HAL_OK, [])], calls = []\<rparr> =
   (Inr (),
    \<lparr>replies = [],
     calls =
       [WritePin 2 16 GPIO_PIN_RESET, TransmitReceive 1 [0x03, 0, 0, 0], WritePin 2 16 GPIO_PIN_SET,
        WritePin 2 16 GPIO_PIN_RESET, Transmit 1 [0x14, 0, 0, 0], WritePin 2 16 GPIO_PIN_SET]\<rparr>)"
  by (simp add: MAX30003_IRQHandler_def MAX30003_GetInterruptStatus_def ReadReg_eq WriteReg_eq
      next_reply_def cs_exchange_def MAX30003_INT_EINT_def MAX30003_INT_EOVF_def
      MAX30003_REG_STATUS_def MAX30003_REG_FIFO_RST_def MAX30003_FIFO_RST_D_def)

text \<open>
  C8. STATUS reads \<^verbatim>\<open>0xC00000\<close> and EN\_INT reads \<^verbatim>\<open>0xC00003\<close>, so the enabled-active set has
  both EINT (bit 23) and EOVF (bit 22); the device would answer 33 more transfers. The
  handler calls \<^verbatim>\<open>MAX30003_ReadFIFO(hmax, NULL, 32)\<close>, which makes one exchange (burst
  command \<^verbatim>\<open>0x41\<close>) and then stores the word through the null pointer: the 32 samples are
  not drained, and the write to FIFO\_RST is never reached.
\<close>

theorem irq_handler_fifo_drain_faults:
  "MAX30003_IRQHandler \<lparr>hspi = 1, cs_port = 2, cs_pin = 16\<rparr> 0
     \<lparr>replies = (HAL_OK, [0, 0xC0, 0, 0]) # (HAL_OK, [0, 0xC0, 0, 0x03]) #
                 replicate 33 (HAL_OK, [0, 0, 0, 0x40]),
      calls = []\<rparr> =
   (Inl NullPointerStore,
    \<lparr>replies = replicate 32 (HAL_OK, [0, 0, 0, 0x40]),
     calls =
       [WritePin 2 16 GPIO_PIN_RESET, TransmitReceive 1 [0x03, 0, 0, 0], WritePin 2 16 GPIO_PIN_SET,
        WritePin 2 16 GPIO_PIN_RESET, TransmitReceive 1 [0x05, 0, 0, 0], WritePin 2 16 GPIO_PIN_SET,
        WritePin 2 16 GPIO_PIN_RESET, TransmitReceive 1 [0x41, 0, 0, 0], WritePin 2 16 GPIO_PIN_SET]\<rparr>)"
  by (simp add: MAX30003_IRQHandler_def MAX30003_GetInterruptStatus_def ReadReg_eq
      MAX30003_ReadFIFO_def ReadFIFO_loop.simps SPI_TransmitReceive_eq store_u32_def
      next_reply_def received_into_def cs_exchange_def Let_def
      MAX30003_INT_EINT_def MAX30003_INT_EOVF_def MAX30003_FIFO_LENGTH_def
      MAX30003_REG_STATUS_def MAX30003_REG_EN_INT_def
      MAX30003_FIFO_CMD_ECG_BURST_def MAX30003_FIFO_CMD_ECG_def)

section \<open>Register configuration\<close>

text \<open>
  C9. Assembling a configuration value is ORing the default with every option: a bit is
  set in the result exactly when it is set in the default or in some option. It takes no
  bus and returns none. With no options the result is the default. Two option sequences
  with the same elements give the same value, so the value does not depend on the order of
  the options (whether or not their bit ranges are disjoint); reversing the options or
  swapping two runs of them are instances.
\<close>

theorem assemble_or:
  "assemble base [] = base
   \<and> (\<forall>n. bit (assemble base opts) n \<longleftrightarrow> bit base n \<or> (\<exists>x\<in>set opts. bit x n))
   \<and> (set opts' = set opts \<longrightarrow> assemble base opts' = assemble base opts)
   \<and> assemble base (rev opts) = assemble base opts
   \<and> assemble base (xs @ ys) = assemble base (ys @ xs)"
proof -
  have e: "assemble base [] = base" by (simp add: assemble_def)
  have s: "assemble base as = assemble base bs" if "set as = set bs" for as bs
    by (rule bit_word_eqI) (simp add: bit_assemble that)
  have r: "assemble base (rev opts) = assemble base opts" by (rule s) simp
  have a: "assemble base (xs @ ys) = assemble base (ys @ xs)" by (rule s) auto
  from e s r a bit_assemble show ?thesis by blast
qed

theorem assemble_or_witness:
  "assemble 0x000003 [] = 0x000003
   \<and> assemble 0x000003 [0x400000, 0x800000, 0x000003] = 0xC00003
   \<and> assemble 0x000003 [0x800000, 0x400000, 0x000003] = 0xC00003
   \<and> assemble 0x000003 [0x000003, 0x800000, 0x400000] =
       assemble 0x000003 [0x800000, 0x400000, 0x000003]"
proof -
  have s: "set [0x000003, 0x800000, 0x400000 :: uint32_t] = set [0x800000, 0x400000, 0x000003]"
    by auto
  have v: "assemble 0x000003 [0x800000, 0x400000, 0x000003] = 0xC00003"
    by (simp add: assemble_def)
  have v': "assemble 0x000003 [0x400000, 0x800000, 0x000003] = 0xC00003"
    by (simp add: assemble_def)
  from s v v'
    assemble_or [of "0x000003" "[0x800000, 0x400000, 0x000003]"
      "[0x000003, 0x800000, 0x400000]" "[]" "[]"]
  show ?thesis by simp
qed

end
